theory Spec2Isabelle
  imports Main "HOL-Library.Word" "HOL-Library.Multiset"
begin

section \<open>Data model of the XWayland surface bridge\<close>

text \<open>
  The development embeds \<^verbatim>\<open>src/server/frontend_xwayland/xwayland_surface.cpp\<close>.
  Every member function becomes a function from the bridge record (and the answers of the
  outside world) to the updated bridge record and the list of calls made to the
  collaborators (X11 connection, shell, scene surface), in the order the source makes them.
  Calls are taken one after the other; the mutex of the class is not modelled.
  \<^verbatim>\<open>move_resize\<close>, \<^verbatim>\<open>scene_surface\<close>, \<^verbatim>\<open>latest_input_timestamp\<close> and
  \<^verbatim>\<open>run_on_wayland_thread\<close> write no member of the bridge and are left out.
\<close>

type_synonym xcb_atom_t = "32 word"
type_synonym xcb_window_t = "32 word"

text \<open>Identities of heap objects held through shared or weak pointers.\<close>

type_synonym session = nat
type_synonym surface = nat
type_synonym observer = nat

text \<open>ICCCM 4.1.3.1; the enumerators carry the values 0, 1 and 3.\<close>

datatype WmState = WITHDRAWN | NORMAL | ICONIC

fun WmState_code :: "WmState \<Rightarrow> 32 word" where
  "WmState_code WITHDRAWN = 0"
| "WmState_code NORMAL = 1"
| "WmState_code ICONIC = 3"

definition XCB_WINDOW_NONE :: "32 word" where
  "XCB_WINDOW_NONE = 0"

text \<open>The predefined atoms of the X11 core protocol used by \<^verbatim>\<open>read_properties\<close>.\<close>

definition XCB_ATOM_WM_NAME :: xcb_atom_t where
  "XCB_ATOM_WM_NAME = 39"

definition XCB_ATOM_WM_CLASS :: xcb_atom_t where
  "XCB_ATOM_WM_CLASS = 67"

text \<open>The enumerators of \<^verbatim>\<open>MirWindowState\<close>, as the switch in
  \<^verbatim>\<open>scene_surface_state_set\<close> lists them.\<close>

datatype MirWindowState =
    mir_window_state_unknown
  | mir_window_state_restored
  | mir_window_state_minimized
  | mir_window_state_maximized
  | mir_window_state_vertmaximized
  | mir_window_state_fullscreen
  | mir_window_state_horizmaximized
  | mir_window_state_hidden
  | mir_window_state_attached
  | mir_window_states

datatype MirWindowType = mir_window_type_freestyle

record WindowState =
  withdrawn :: bool
  minimized :: bool
  maximized :: bool
  fullscreen :: bool

record Properties =
  title :: string
  appId :: string
  deleteWindow :: bool

record Size =
  width :: int
  height :: int

text \<open>The atoms the connection resolved at start-up; the bridge only reads them.\<close>

record XCBConnection =
  wm_state :: xcb_atom_t
  wm_protocols :: xcb_atom_t
  wm_delete_window :: xcb_atom_t
  net_wm_name :: xcb_atom_t
  net_wm_desktop :: xcb_atom_t
  net_wm_state :: xcb_atom_t
  net_wm_state_hidden :: xcb_atom_t
  net_wm_state_maximized_horz :: xcb_atom_t
  net_wm_state_maximized_vert :: xcb_atom_t
  net_wm_state_fullscreen :: xcb_atom_t

text \<open>The fields of \<^verbatim>\<open>scene::SurfaceCreationParameters\<close> that the bridge writes.\<close>

record SurfaceCreationParameters =
  streams :: "nat list option"
  input_shape :: "nat list option"
  param_type :: "MirWindowType option"
  name :: string
  application_id :: "string option"
  param_size :: Size
  server_side_decorated :: "bool option"

definition default_params :: SurfaceCreationParameters where
  "default_params =
     \<lparr>streams = None, input_shape = None, param_type = None, name = [],
      application_id = None, param_size = \<lparr>width = 0, height = 0\<rparr>,
      server_side_decorated = None\<rparr>"

text \<open>The member \<^verbatim>\<open>init\<close>, filled from the create-notify event.\<close>

record InitialGeometry =
  parent :: xcb_window_t
  position :: "int \<times> int"
  init_size :: Size
  override_redirect :: bool

text \<open>
  The windowing surface as \<^verbatim>\<open>set_surface\<close> sees it: the session that
  \<^verbatim>\<open>get_session(wl_surface->resource)\<close> returns (a shared pointer, which may be null),
  \<^verbatim>\<open>buffer_size()\<close> (empty until a buffer is committed), and the streams and input shape
  that \<^verbatim>\<open>populate_surface_data\<close> appends.
\<close>

record WlSurface =
  resource_session :: "session option"
  buffer_size :: "Size option"
  surface_streams :: "nat list"
  surface_input_shape :: "nat list"

text \<open>The bridge. The two weak pointers hold an identity that may have expired.\<close>

record XWaylandSurface =
  connection :: XCBConnection
  window :: xcb_window_t
  props_dirty :: bool
  init :: InitialGeometry
  window_state :: WindowState
  cached_mir_window_state :: MirWindowState
  properties :: Properties
  surface_observer :: "observer option"
  weak_session :: "session option"
  weak_scene_surface :: "surface option"
  creation_params :: "SurfaceCreationParameters option"

text \<open>
  What the outside world answers during one call: which sessions and scene surfaces are
  still alive (so that \<^verbatim>\<open>weak_ptr::lock\<close> succeeds), the session of a scene surface,
  the surface the shell returns from \<^verbatim>\<open>create_surface\<close>, whether the observer is still
  held by someone after the bridge released it, and the replies to property reads
  (\<open>None\<close>: the callback is not invoked).
\<close>

record environment =
  session_alive :: "session \<Rightarrow> bool"
  surface_alive :: "surface \<Rightarrow> bool"
  surface_session :: "surface \<Rightarrow> session option"
  created_surface :: surface
  observer_still_held :: "observer \<Rightarrow> bool"
  string_reply :: "xcb_atom_t \<Rightarrow> string option"
  atoms_reply :: "xcb_atom_t \<Rightarrow> xcb_atom_t list option"

text \<open>The calls the bridge makes to its collaborators.\<close>

datatype call =
    Set_property_WM_STATE xcb_window_t xcb_atom_t "32 word list"
  | Set_property_ATOM xcb_window_t xcb_atom_t "xcb_atom_t list"
  | Set_property_CARDINAL32 xcb_window_t xcb_atom_t "32 word"
  | Xcb_delete_property xcb_window_t xcb_atom_t
  | Connection_delete_property xcb_window_t xcb_atom_t
  | Read_property xcb_window_t xcb_atom_t
  | Xcb_configure_window xcb_window_t "32 word list"
  | Xcb_destroy_window xcb_window_t
  | Flush
  | Shell_create_surface session SurfaceCreationParameters observer
  | Shell_destroy_surface "session option" surface
  | Shell_modify_surface "session option" surface MirWindowState
  | Remove_observer surface observer
  | Fatal_error

datatype error = Set_surface_called_multiple_times

definition lock_session :: "environment \<Rightarrow> session option \<Rightarrow> session option" where
  "lock_session e w =
     (case w of None \<Rightarrow> None
      | Some s \<Rightarrow> if session_alive e s then Some s else None)"

definition lock_surface :: "environment \<Rightarrow> surface option \<Rightarrow> surface option" where
  "lock_surface e w =
     (case w of None \<Rightarrow> None
      | Some s \<Rightarrow> if surface_alive e s then Some s else None)"

section \<open>The state-propagation routine\<close>

text \<open>Lines 528 to 535: the ICCCM state written to \<^verbatim>\<open>WM_STATE\<close>.\<close>

definition wm_state_of :: "WindowState \<Rightarrow> WmState" where
  "wm_state_of s =
     (if withdrawn s then WITHDRAWN
      else if minimized s then ICONIC
      else NORMAL)"

text \<open>Lines 552 to 566: the vector \<^verbatim>\<open>net_wm_states\<close> built for a window that is not withdrawn.\<close>

definition net_wm_states :: "XCBConnection \<Rightarrow> WindowState \<Rightarrow> xcb_atom_t list" where
  "net_wm_states c s =
     (if minimized s then [net_wm_state_hidden c] else []) @
     (if maximized s then [net_wm_state_maximized_horz c, net_wm_state_maximized_vert c] else []) @
     (if fullscreen s then [net_wm_state_fullscreen c] else [])"

text \<open>
  Lines 572 to 583. The local \<^verbatim>\<open>mir_window_state\<close> is declared without a value
  (\<open>None\<close>); the first \<^verbatim>\<open>if\<close> assigns \<^verbatim>\<open>hidden\<close> for a withdrawn window, and the
  second statement, an \<^verbatim>\<open>if\<close> chain whose last \<^verbatim>\<open>else\<close> always assigns, follows it
  without an \<^verbatim>\<open>else\<close> in between.
\<close>

definition assign_hidden_if_withdrawn :: "WindowState \<Rightarrow> MirWindowState option" where
  "assign_hidden_if_withdrawn s =
     (if withdrawn s then Some mir_window_state_hidden else None)"

definition assign_by_flags :: "WindowState \<Rightarrow> MirWindowState option \<Rightarrow> MirWindowState" where
  "assign_by_flags s overwritten =
     (if minimized s then mir_window_state_minimized
      else if fullscreen s then mir_window_state_fullscreen
      else if maximized s then mir_window_state_maximized
      else mir_window_state_restored)"

definition mir_window_state_of :: "WindowState \<Rightarrow> MirWindowState" where
  "mir_window_state_of s = assign_by_flags s (assign_hidden_if_withdrawn s)"

definition set_window_state ::
  "environment \<Rightarrow> WindowState \<Rightarrow> XWaylandSurface \<Rightarrow> XWaylandSurface \<times> call list" where
  "set_window_state e new_window_state b =
     (let c = connection b;
          wire =
            [Set_property_WM_STATE (window b) (wm_state c)
               [WmState_code (wm_state_of new_window_state), XCB_WINDOW_NONE]] @
            (if withdrawn new_window_state
             then [Xcb_delete_property (window b) (net_wm_state c)]
             else [Set_property_ATOM (window b) (net_wm_state c)
                     (net_wm_states c new_window_state)]);
          mir_window_state = mir_window_state_of new_window_state;
          update_mir_window_state = (mir_window_state \<noteq> cached_mir_window_state b);
          b' = b\<lparr>window_state := new_window_state,
                 cached_mir_window_state :=
                   (if update_mir_window_state then mir_window_state
                    else cached_mir_window_state b)\<rparr>;
          scene_surface = lock_surface e (weak_scene_surface b)
      in (b', wire @
            (case scene_surface of
               Some s \<Rightarrow>
                 if update_mir_window_state
                 then [Shell_modify_surface (surface_session e s) s mir_window_state]
                 else []
             | None \<Rightarrow> [])))"

definition map_window :: "environment \<Rightarrow> XWaylandSurface \<Rightarrow> XWaylandSurface \<times> call list" where
  "map_window e b = set_window_state e ((window_state b)\<lparr>withdrawn := False\<rparr>) b"

definition unmap :: "environment \<Rightarrow> XWaylandSurface \<Rightarrow> XWaylandSurface \<times> call list" where
  "unmap e b = set_window_state e ((window_state b)\<lparr>withdrawn := True\<rparr>) b"

text \<open>The attribute handed to the shell, read off the calls of one operation.\<close>

fun modified_states :: "call list \<Rightarrow> MirWindowState list" where
  "modified_states [] = []"
| "modified_states (Shell_modify_surface _ _ st # cs) = st # modified_states cs"
| "modified_states (_ # cs) = modified_states cs"

section \<open>Client messages\<close>

text \<open>The five 32-bit words of a client message.\<close>

type_synonym client_message_data = "32 word \<times> 32 word \<times> 32 word \<times> 32 word \<times> 32 word"

text \<open>
  The switch over \<^verbatim>\<open>Action\<close> (REMOVE = 0, ADD = 1, TOGGLE = 2) applied to the flag that
  \<^verbatim>\<open>prop_ptr\<close> points to; a word that is none of the three enumerators takes no case.
\<close>

definition apply_action :: "32 word \<Rightarrow> bool \<Rightarrow> bool" where
  "apply_action action v =
     (if action = 0 then False
      else if action = 1 then True
      else if action = 2 then \<not> v
      else v)"

text \<open>
  One round of the loop over \<^verbatim>\<open>properties\<close>: a zero atom is skipped, an atom that is
  none of the three compared ones leaves \<^verbatim>\<open>prop_ptr\<close> at the local \<^verbatim>\<open>nil\<close>.
\<close>

definition update_property :: "XCBConnection \<Rightarrow> 32 word \<Rightarrow> xcb_atom_t \<Rightarrow> WindowState \<Rightarrow> WindowState" where
  "update_property c action property s =
     (if property \<noteq> 0 then
        (if property = net_wm_state_hidden c
           then s\<lparr>minimized := apply_action action (minimized s)\<rparr>
         else if property = net_wm_state_maximized_horz c
           then s\<lparr>maximized := apply_action action (maximized s)\<rparr>
         else if property = net_wm_state_fullscreen c
           then s\<lparr>fullscreen := apply_action action (fullscreen s)\<rparr>
         else s)
      else s)"

definition net_wm_state_client_message ::
  "environment \<Rightarrow> client_message_data \<Rightarrow> XWaylandSurface \<Rightarrow> XWaylandSurface \<times> call list" where
  "net_wm_state_client_message e data b =
     (case data of (action, property1, property2, source_indication, unused) \<Rightarrow>
        set_window_state e
          (update_property (connection b) action property2
             (update_property (connection b) action property1 (window_state b))) b)"

definition wm_change_state_client_message ::
  "environment \<Rightarrow> client_message_data \<Rightarrow> XWaylandSurface \<Rightarrow> XWaylandSurface \<times> call list" where
  "wm_change_state_client_message e data b =
     (case data of (requested_state, d1, d2, d3, d4) \<Rightarrow>
        set_window_state e
          (if requested_state = WmState_code NORMAL then (window_state b)\<lparr>minimized := False\<rparr>
           else if requested_state = WmState_code ICONIC then (window_state b)\<lparr>minimized := True\<rparr>
           else window_state b) b)"

section \<open>Notifications from the scene surface\<close>

definition from_mir_window_state :: "MirWindowState \<Rightarrow> WindowState \<Rightarrow> WindowState" where
  "from_mir_window_state new_state s =
     (case new_state of
        mir_window_state_minimized \<Rightarrow> s\<lparr>minimized := True\<rparr>
      | mir_window_state_hidden \<Rightarrow> s\<lparr>minimized := True\<rparr>
      | mir_window_state_fullscreen \<Rightarrow> s\<lparr>minimized := False, fullscreen := True\<rparr>
      | mir_window_state_maximized \<Rightarrow> s\<lparr>minimized := False, maximized := True, fullscreen := False\<rparr>
      | mir_window_state_vertmaximized \<Rightarrow> s\<lparr>minimized := False, maximized := True, fullscreen := False\<rparr>
      | mir_window_state_horizmaximized \<Rightarrow> s\<lparr>minimized := False, maximized := True, fullscreen := False\<rparr>
      | mir_window_state_restored \<Rightarrow> s\<lparr>minimized := False, maximized := False, fullscreen := False\<rparr>
      | mir_window_state_unknown \<Rightarrow> s\<lparr>minimized := False, maximized := False, fullscreen := False\<rparr>
      | mir_window_state_attached \<Rightarrow> s\<lparr>minimized := False, maximized := False, fullscreen := False\<rparr>
      | mir_window_states \<Rightarrow> s)"

definition scene_surface_state_set ::
  "environment \<Rightarrow> MirWindowState \<Rightarrow> XWaylandSurface \<Rightarrow> XWaylandSurface \<times> call list" where
  "scene_surface_state_set e new_state b =
     (if new_state = cached_mir_window_state b then (b, [])
      else set_window_state e (from_mir_window_state new_state (window_state b))
             (b\<lparr>cached_mir_window_state := new_state\<rparr>))"

definition scene_surface_resized :: "Size \<Rightarrow> XWaylandSurface \<Rightarrow> XWaylandSurface \<times> call list" where
  "scene_surface_resized new_size b =
     (b, [Xcb_configure_window (window b)
            [word_of_int (width new_size), word_of_int (height new_size)], Flush])"

definition scene_surface_close_requested :: "XWaylandSurface \<Rightarrow> XWaylandSurface \<times> call list" where
  "scene_surface_close_requested b = (b, [Xcb_destroy_window (window b), Flush])"

section \<open>Attaching the windowing surface and creating the scene surface\<close>

definition create_scene_surface_if_needed ::
  "environment \<Rightarrow> XWaylandSurface \<Rightarrow> XWaylandSurface \<times> call list" where
  "create_scene_surface_if_needed e b =
     (case lock_surface e (weak_scene_surface b) of
        Some existing \<Rightarrow> (b, [])
      | None \<Rightarrow>
     (case creation_params b of
        None \<Rightarrow> (b, [])
      | Some moved_params \<Rightarrow>
     (case surface_observer b of
        None \<Rightarrow> (b, [])
      | Some observer \<Rightarrow>
     (case lock_session e (weak_session b) of
        None \<Rightarrow> (b, [])
      | Some ses \<Rightarrow>
          (let params = moved_params
                 \<lparr>param_type := Some mir_window_type_freestyle,
                  name := (if title (properties b) \<noteq> [] then title (properties b)
                           else name moved_params),
                  application_id := (if appId (properties b) \<noteq> [] then Some (appId (properties b))
                                     else application_id moved_params),
                  param_size := init_size (init b),
                  server_side_decorated := Some True\<rparr>
           in (b\<lparr>creation_params := None, weak_scene_surface := Some (created_surface e)\<rparr>,
               [Shell_create_surface ses params observer]))))))"

text \<open>
  \<^verbatim>\<open>set_surface\<close>: the observer is the object \<^verbatim>\<open>make_shared\<close> has just allocated. The
  exception is thrown before any member is written.
\<close>

definition set_surface ::
  "environment \<Rightarrow> WlSurface \<Rightarrow> observer \<Rightarrow> XWaylandSurface \<Rightarrow>
     error + XWaylandSurface \<times> call list" where
  "set_surface e wl_surface observer b =
     (if surface_observer b \<noteq> None \<or> lock_session e (weak_session b) \<noteq> None
      then Inl Set_surface_called_multiple_times
      else
        (let b1 = b\<lparr>surface_observer := Some observer,
                     weak_session := resource_session wl_surface,
                     creation_params := Some (default_params
                        \<lparr>streams := Some (surface_streams wl_surface),
                         input_shape := Some (surface_input_shape wl_surface)\<rparr>)\<rparr>
         in if buffer_size wl_surface \<noteq> None
            then Inr (create_scene_surface_if_needed e b1)
            else Inr (b1, [])))"

definition wl_surface_committed :: "environment \<Rightarrow> XWaylandSurface \<Rightarrow> XWaylandSurface \<times> call list" where
  "wl_surface_committed e b = create_scene_surface_if_needed e b"

section \<open>Closing\<close>

definition close :: "environment \<Rightarrow> XWaylandSurface \<Rightarrow> XWaylandSurface \<times> call list" where
  "close e b =
     (let scene_surface = lock_surface e (weak_scene_surface b);
          observer = surface_observer b;
          b' = b\<lparr>weak_scene_surface := None, surface_observer := None\<rparr>
      in (b',
          (case scene_surface of
             Some s \<Rightarrow> (case observer of Some ob \<Rightarrow> [Remove_observer s ob] | None \<Rightarrow> [])
           | None \<Rightarrow> []) @
          (case scene_surface of
             Some s \<Rightarrow> [Shell_destroy_surface (surface_session e s) s]
           | None \<Rightarrow> []) @
          (case observer of
             Some ob \<Rightarrow> if observer_still_held e ob then [Fatal_error] else []
           | None \<Rightarrow> [])))"

definition wl_surface_destroyed :: "environment \<Rightarrow> XWaylandSurface \<Rightarrow> XWaylandSurface \<times> call list" where
  "wl_surface_destroyed e b = close e b"

section \<open>Workspace and cached properties\<close>

text \<open>The argument is a C++ \<^verbatim>\<open>int\<close>: 32 bits, read as two's complement.\<close>

definition set_workspace :: "32 word \<Rightarrow> XWaylandSurface \<Rightarrow> XWaylandSurface \<times> call list" where
  "set_workspace workspace b =
     (b, (if 0 \<le> sint workspace
          then [Set_property_CARDINAL32 (window b) (net_wm_desktop (connection b)) workspace]
          else [Connection_delete_property (window b) (net_wm_desktop (connection b))]) @
         [Flush])"

definition dirty_properties :: "XWaylandSurface \<Rightarrow> XWaylandSurface \<times> call list" where
  "dirty_properties b = (b\<lparr>props_dirty := True\<rparr>, [])"

text \<open>
  \<^verbatim>\<open>read_property\<close> takes the atom to read and the callback for its value, and returns
  the action that delivers the reply to the callback. The callbacks are the four lambdas of
  \<^verbatim>\<open>read_properties\<close>.
\<close>

datatype read_callback =
    String_callback "string \<Rightarrow> Properties \<Rightarrow> Properties"
  | Atoms_callback "xcb_atom_t list \<Rightarrow> Properties \<Rightarrow> Properties"

type_synonym action = "xcb_atom_t \<times> read_callback"

definition wm_class_action :: action where
  "wm_class_action = (XCB_ATOM_WM_CLASS, String_callback (\<lambda>v p. p\<lparr>appId := v\<rparr>))"

definition wm_name_action :: action where
  "wm_name_action = (XCB_ATOM_WM_NAME, String_callback (\<lambda>v p. p\<lparr>title := v\<rparr>))"

definition net_wm_name_action :: "XCBConnection \<Rightarrow> action" where
  "net_wm_name_action c = (net_wm_name c, String_callback (\<lambda>v p. p\<lparr>title := v\<rparr>))"

definition wm_protocols_action :: "XCBConnection \<Rightarrow> action" where
  "wm_protocols_action c =
     (wm_protocols c,
      Atoms_callback (\<lambda>v p. if wm_delete_window c \<in> set v then p\<lparr>deleteWindow := True\<rparr> else p))"

definition read_properties_actions :: "XCBConnection \<Rightarrow> action list" where
  "read_properties_actions c =
     [wm_class_action, wm_name_action, net_wm_name_action c, wm_protocols_action c]"

fun run_action :: "environment \<Rightarrow> action \<Rightarrow> Properties \<Rightarrow> Properties" where
  "run_action e (atom, String_callback f) p =
     (case string_reply e atom of None \<Rightarrow> p | Some v \<Rightarrow> f v p)"
| "run_action e (atom, Atoms_callback f) p =
     (case atoms_reply e atom of None \<Rightarrow> p | Some v \<Rightarrow> f v p)"

text \<open>The loop \<^verbatim>\<open>for (auto const& action : actions) action();\<close>\<close>

fun run_actions :: "environment \<Rightarrow> action list \<Rightarrow> Properties \<Rightarrow> Properties" where
  "run_actions e [] p = p"
| "run_actions e (a # as) p = run_actions e as (run_action e a p)"

definition read_properties :: "environment \<Rightarrow> XWaylandSurface \<Rightarrow> XWaylandSurface \<times> call list" where
  "read_properties e b =
     (if \<not> props_dirty b then (b, [])
      else
        (let actions = read_properties_actions (connection b)
         in (b\<lparr>props_dirty := False,
                properties := run_actions e actions ((properties b)\<lparr>deleteWindow := False\<rparr>)\<rparr>,
             map (\<lambda>a. Read_property (window b) (fst a)) actions)))"

section \<open>The bridge as a state machine\<close>

text \<open>
  The constructor. The initial values of \<^verbatim>\<open>window_state\<close>, \<^verbatim>\<open>cached_mir_window_state\<close>
  and \<^verbatim>\<open>properties\<close> are member initialisers of the class declaration and are taken as
  arguments; the optionals and weak pointers start empty. The constructor's one request,
  \<^verbatim>\<open>xcb_change_window_attributes\<close>, precedes every call considered here.
\<close>

definition new_XWaylandSurface ::
  "XCBConnection \<Rightarrow> xcb_window_t \<Rightarrow> InitialGeometry \<Rightarrow> WindowState \<Rightarrow> MirWindowState \<Rightarrow>
     Properties \<Rightarrow> XWaylandSurface" where
  "new_XWaylandSurface c w i ws ms ps =
     \<lparr>connection = c, window = w, props_dirty = True, init = i,
      window_state = ws, cached_mir_window_state = ms, properties = ps,
      surface_observer = None, weak_session = None, weak_scene_surface = None,
      creation_params = None\<rparr>"

datatype operation =
    Map
  | Unmap
  | Close
  | Net_wm_state_client_message client_message_data
  | Wm_change_state_client_message client_message_data
  | Dirty_properties
  | Set_surface WlSurface observer
  | Set_workspace "32 word"
  | Read_properties
  | Scene_surface_state_set MirWindowState
  | Scene_surface_resized Size
  | Scene_surface_close_requested
  | Wl_surface_destroyed
  | Wl_surface_committed

text \<open>One call of a member function; a throwing \<^verbatim>\<open>set_surface\<close> leaves the bridge as it was.\<close>

fun step :: "environment \<Rightarrow> operation \<Rightarrow> XWaylandSurface \<Rightarrow> XWaylandSurface \<times> call list" where
  "step e Map b = map_window e b"
| "step e Unmap b = unmap e b"
| "step e Close b = close e b"
| "step e (Net_wm_state_client_message data) b = net_wm_state_client_message e data b"
| "step e (Wm_change_state_client_message data) b = wm_change_state_client_message e data b"
| "step e Dirty_properties b = dirty_properties b"
| "step e (Set_surface wl_surface observer) b =
     (case set_surface e wl_surface observer b of Inl err \<Rightarrow> (b, []) | Inr r \<Rightarrow> r)"
| "step e (Set_workspace workspace) b = set_workspace workspace b"
| "step e Read_properties b = read_properties e b"
| "step e (Scene_surface_state_set new_state) b = scene_surface_state_set e new_state b"
| "step e (Scene_surface_resized new_size) b = scene_surface_resized new_size b"
| "step e Scene_surface_close_requested b = scene_surface_close_requested b"
| "step e Wl_surface_destroyed b = wl_surface_destroyed e b"
| "step e Wl_surface_committed b = wl_surface_committed e b"

text \<open>A sequence of calls, each with the answers of the outside world at that moment.\<close>

fun run :: "(environment \<times> operation) list \<Rightarrow> XWaylandSurface \<Rightarrow> XWaylandSurface \<times> call list" where
  "run [] b = (b, [])"
| "run ((e, member_call) # rest) b =
     (case step e member_call b of (b1, calls1) \<Rightarrow>
        (case run rest b1 of (b2, calls2) \<Rightarrow> (b2, calls1 @ calls2)))"

text \<open>The bridges that a sequence of calls can produce from a newly constructed one.\<close>

inductive reachable :: "XWaylandSurface \<Rightarrow> bool" where
  constructed: "reachable (new_XWaylandSurface c w i ws ms ps)"
| called: "reachable b \<Longrightarrow> reachable (fst (step e op b))"

section \<open>Observations on the calls\<close>

fun is_create_surface :: "call \<Rightarrow> bool" where
  "is_create_surface (Shell_create_surface _ _ _) = True"
| "is_create_surface _ = False"

fun is_modify_surface :: "call \<Rightarrow> bool" where
  "is_modify_surface (Shell_modify_surface _ _ _) = True"
| "is_modify_surface _ = False"

definition creations :: "call list \<Rightarrow> nat" where
  "creations cs = length (filter is_create_surface cs)"

definition modifications :: "call list \<Rightarrow> nat" where
  "modifications cs = length (filter is_modify_surface cs)"

text \<open>The requests that go to the X11 connection.\<close>

fun to_connection :: "call \<Rightarrow> bool" where
  "to_connection (Shell_create_surface _ _ _) = False"
| "to_connection (Shell_destroy_surface _ _) = False"
| "to_connection (Shell_modify_surface _ _ _) = False"
| "to_connection (Remove_observer _ _) = False"
| "to_connection Fatal_error = False"
| "to_connection _ = True"

text \<open>One commit notification for each element of the list.\<close>

definition commits :: "environment list \<Rightarrow> (environment \<times> operation) list" where
  "commits es = map (\<lambda>e. (e, Wl_surface_committed)) es"

text \<open>Whether the reply to the \<^verbatim>\<open>WM_PROTOCOLS\<close> read lists \<^verbatim>\<open>WM_DELETE_WINDOW\<close>.\<close>

definition close_supported :: "environment \<Rightarrow> XCBConnection \<Rightarrow> bool" where
  "close_supported e c =
     (case atoms_reply e (wm_protocols c) of
        None \<Rightarrow> False
      | Some v \<Rightarrow> wm_delete_window c \<in> set v)"

section \<open>The state transformation of a state message, as the specification words it\<close>

text \<open>
  Section 4.1 of the specification describes \<^verbatim>\<open>apply_legacy_state_message\<close>: an action
  (Add, Remove or Toggle) and a set of target properties among minimized, maximized and
  fullscreen; for each named property, apply the action. The definitions below follow these
  words and do not look at the source: the targets are a set, so a property is acted on
  once however often it is named. A message names its targets in its two atom slots; a
  slot that is zero or holds an atom naming none of the three properties names nothing.
\<close>

datatype state_action = Remove | Add | Toggle

datatype state_property = Minimized | Maximized | Fullscreen

fun act :: "state_action \<Rightarrow> bool \<Rightarrow> bool" where
  "act Remove v = False"
| "act Add v = True"
| "act Toggle v = (\<not> v)"

definition apply_legacy_state_message ::
  "state_action \<Rightarrow> state_property set \<Rightarrow> WindowState \<Rightarrow> WindowState" where
  "apply_legacy_state_message a targets s =
     s\<lparr>minimized := (if Minimized \<in> targets then act a (minimized s) else minimized s),
       maximized := (if Maximized \<in> targets then act a (maximized s) else maximized s),
       fullscreen := (if Fullscreen \<in> targets then act a (fullscreen s) else fullscreen s)\<rparr>"

text \<open>The property an atom names: \<^verbatim>\<open>_NET_WM_STATE_HIDDEN\<close> names minimized,
  \<^verbatim>\<open>_NET_WM_STATE_MAXIMIZED_HORZ\<close> maximized, \<^verbatim>\<open>_NET_WM_STATE_FULLSCREEN\<close> fullscreen.\<close>

definition named_property :: "XCBConnection \<Rightarrow> xcb_atom_t \<Rightarrow> state_property option" where
  "named_property c t =
     (if t = 0 then None
      else if t = net_wm_state_hidden c then Some Minimized
      else if t = net_wm_state_maximized_horz c then Some Maximized
      else if t = net_wm_state_fullscreen c then Some Fullscreen
      else None)"

text \<open>The set of properties the two slots of a message name.\<close>

definition target_properties :: "XCBConnection \<Rightarrow> xcb_atom_t \<Rightarrow> xcb_atom_t \<Rightarrow> state_property set" where
  "target_properties c t1 t2 = set_option (named_property c t1) \<union> set_option (named_property c t2)"

text \<open>A state message: action, two target atoms, source indication, unused word.\<close>

type_synonym net_wm_state_message =
  "state_action \<times> xcb_atom_t \<times> xcb_atom_t \<times> 32 word \<times> 32 word"

fun action_code :: "state_action \<Rightarrow> 32 word" where
  "action_code Remove = 0"
| "action_code Add = 1"
| "action_code Toggle = 2"

definition encode_message :: "net_wm_state_message \<Rightarrow> client_message_data" where
  "encode_message m = (case m of (a, rest) \<Rightarrow> (action_code a, rest))"

definition message_transformation ::
  "XCBConnection \<Rightarrow> net_wm_state_message \<Rightarrow> WindowState \<Rightarrow> WindowState" where
  "message_transformation c m s =
     (case m of (a, t1, t2, source_indication, unused) \<Rightarrow>
        apply_legacy_state_message a (target_properties c t1 t2) s)"

text \<open>A Toggle whose two slots name the same property.\<close>

definition toggles_twice :: "XCBConnection \<Rightarrow> net_wm_state_message \<Rightarrow> bool" where
  "toggles_twice c m =
     (case m of (a, t1, t2, source_indication, unused) \<Rightarrow>
        a = Toggle \<and> named_property c t1 \<noteq> None \<and> named_property c t1 = named_property c t2)"

definition state_messages ::
  "(environment \<times> net_wm_state_message) list \<Rightarrow> (environment \<times> operation) list" where
  "state_messages ms = map (\<lambda>(e, m). (e, Net_wm_state_client_message (encode_message m))) ms"

section \<open>Concrete values used in the examples\<close>

definition example_connection :: XCBConnection where
  "example_connection =
     \<lparr>wm_state = 300, wm_protocols = 301, wm_delete_window = 302, net_wm_name = 303,
      net_wm_desktop = 304, net_wm_state = 305, net_wm_state_hidden = 306,
      net_wm_state_maximized_horz = 307, net_wm_state_maximized_vert = 308,
      net_wm_state_fullscreen = 309\<rparr>"

definition all_false :: WindowState where
  "all_false = \<lparr>withdrawn = False, minimized = False, maximized = False, fullscreen = False\<rparr>"

definition empty_properties :: Properties where
  "empty_properties = \<lparr>title = [], appId = [], deleteWindow = False\<rparr>"

text \<open>A newly constructed bridge for window 42.\<close>

definition example_bridge :: XWaylandSurface where
  "example_bridge =
     new_XWaylandSurface example_connection 42
       \<lparr>parent = 1, position = (0, 0), init_size = \<lparr>width = 640, height = 480\<rparr>,
        override_redirect = False\<rparr>
       all_false mir_window_state_restored empty_properties"

text \<open>All sessions and surfaces alive, the shell returns surface 5, no property is set.\<close>

definition everything_alive :: environment where
  "everything_alive =
     \<lparr>session_alive = (\<lambda>_. True), surface_alive = (\<lambda>_. True),
      surface_session = (\<lambda>_. Some 1), created_surface = 5,
      observer_still_held = (\<lambda>_. False),
      string_reply = (\<lambda>_. None), atoms_reply = (\<lambda>_. None)\<rparr>"

text \<open>The same, after session 1 has gone away.\<close>

definition session_gone :: environment where
  "session_gone = everything_alive\<lparr>session_alive := (\<lambda>s. s \<noteq> 1)\<rparr>"

text \<open>The window has \<^verbatim>\<open>WM_NAME\<close>, \<^verbatim>\<open>_NET_WM_NAME\<close> and
  \<^verbatim>\<open>WM_PROTOCOLS\<close> with \<^verbatim>\<open>WM_DELETE_WINDOW\<close>, and no \<^verbatim>\<open>WM_CLASS\<close>.\<close>

definition example_replies :: environment where
  "example_replies = everything_alive
     \<lparr>string_reply := (\<lambda>a. if a = XCB_ATOM_WM_NAME then Some ''xterm''
                            else if a = 303 then Some ''XTerm''
                            else None),
      atoms_reply := (\<lambda>a. if a = 301 then Some [302] else None)\<rparr>"

text \<open>A windowing surface of session 1 with no committed buffer, and one of session 2.\<close>

definition example_wl :: WlSurface where
  "example_wl =
     \<lparr>resource_session = Some 1, buffer_size = None, surface_streams = [11],
      surface_input_shape = []\<rparr>"

definition other_wl :: WlSurface where
  "other_wl = example_wl\<lparr>resource_session := Some 2\<rparr>"

text \<open>The example bridge after \<^verbatim>\<open>set_surface\<close>, after the first commit, and after the
  client then asked for fullscreen and the window was unmapped.\<close>

definition example_attached :: XWaylandSurface where
  "example_attached = example_bridge
     \<lparr>surface_observer := Some 7, weak_session := Some 1,
      creation_params := Some (default_params\<lparr>streams := Some [11], input_shape := Some []\<rparr>)\<rparr>"

definition example_shown :: XWaylandSurface where
  "example_shown = example_bridge
     \<lparr>surface_observer := Some 7, weak_session := Some 1, weak_scene_surface := Some 5\<rparr>"

definition example_unmapped_fullscreen :: XWaylandSurface where
  "example_unmapped_fullscreen = example_shown
     \<lparr>window_state :=
        \<lparr>withdrawn = True, minimized = False, maximized = False, fullscreen = True\<rparr>,
      cached_mir_window_state := mir_window_state_fullscreen\<rparr>"

section \<open>Auxiliary facts\<close>

lemmas examples =
  example_bridge_def new_XWaylandSurface_def example_connection_def everything_alive_def
  example_wl_def other_wl_def example_attached_def example_shown_def
  example_unmapped_fullscreen_def
  session_gone_def all_false_def empty_properties_def default_params_def

lemmas operations =
  set_surface_def create_scene_surface_if_needed_def wl_surface_committed_def
  net_wm_state_client_message_def update_property_def apply_action_def unmap_def
  map_window_def set_window_state_def wm_state_of_def net_wm_states_def lock_session_def
  lock_surface_def scene_surface_state_set_def from_mir_window_state_def close_def

lemma mir_window_state_of_flags:
  "mir_window_state_of s =
     (if minimized s then mir_window_state_minimized
      else if fullscreen s then mir_window_state_fullscreen
      else if maximized s then mir_window_state_maximized
      else mir_window_state_restored)"
  by (simp add: mir_window_state_of_def assign_by_flags_def)

lemma set_window_state_fields:
  "window_state (fst (set_window_state e s b)) = s"
  "connection (fst (set_window_state e s b)) = connection b"
  "surface_observer (fst (set_window_state e s b)) = surface_observer b"
  "weak_scene_surface (fst (set_window_state e s b)) = weak_scene_surface b"
  by (simp_all add: set_window_state_def Let_def)

lemma example_reachable: "reachable example_bridge"
  unfolding example_bridge_def by (rule reachable.constructed)

lemma example_attach:
  "set_surface everything_alive example_wl 7 example_bridge = Inr (example_attached, [])"
  by (simp add: examples operations Let_def)

lemma example_shown_reached:
  "fst (run [(everything_alive, Set_surface example_wl 7),
             (everything_alive, Wl_surface_committed)] example_bridge) = example_shown"
  by (simp add: examples operations Let_def)

lemma example_unmapped_fullscreen_reached:
  "fst (run [(everything_alive, Net_wm_state_client_message (1, 309, 0, 1, 0)),
             (everything_alive, Unmap)] example_shown) = example_unmapped_fullscreen"
  by (simp add: examples operations mir_window_state_of_flags Let_def)

section \<open>The state-propagation routine\<close>

text \<open>No window state is mapped to \<^verbatim>\<open>hidden\<close>.\<close>

lemma never_hidden: "mir_window_state_of s \<noteq> mir_window_state_hidden"
  by (simp add: mir_window_state_of_flags)

text \<open>
  C1. A withdrawn window should reach the shell as \<^verbatim>\<open>hidden\<close>. The source assigns
  \<^verbatim>\<open>hidden\<close> and then overwrites it: for the withdrawn window with no other flag set the
  attribute computed is \<^verbatim>\<open>restored\<close>, and the bridge that was shown, made fullscreen and
  unmapped hands \<^verbatim>\<open>restored\<close> to the shell when the client then removes fullscreen.
\<close>

theorem withdrawn_window_pushed_as_restored:
  "mir_window_state_of \<lparr>withdrawn = True, minimized = False, maximized = False, fullscreen = False\<rparr>
     = mir_window_state_restored
   \<and> modified_states (snd (set_window_state everything_alive
        \<lparr>withdrawn = True, minimized = False, maximized = False, fullscreen = False\<rparr>
        example_unmapped_fullscreen))
     = [mir_window_state_restored]"
  by (simp add: examples mir_window_state_of_flags set_window_state_def lock_surface_def Let_def)

text \<open>
  C5. For a withdrawn window, whatever its other three flags, the routine writes
  \<^verbatim>\<open>WM_STATE\<close> as (Withdrawn, no icon window) and deletes the \<^verbatim>\<open>_NET_WM_STATE\<close>
  property, so that the window advertises no state atom; these are its only two requests
  to the X11 connection.
\<close>

theorem withdrawn_wire_state:
  "withdrawn s \<Longrightarrow>
     wm_state_of s = WITHDRAWN \<and>
     filter to_connection (snd (set_window_state e s b)) =
       [Set_property_WM_STATE (window b) (wm_state (connection b)) [0, 0],
        Xcb_delete_property (window b) (net_wm_state (connection b))]"
  by (simp add: wm_state_of_def set_window_state_def Let_def XCB_WINDOW_NONE_def
      split: option.splits)

text \<open>C5 at the withdrawn window whose other three flags are all set.\<close>

theorem withdrawn_wire_state_witness:
  "withdrawn \<lparr>withdrawn = True, minimized = True, maximized = True, fullscreen = True\<rparr> \<and>
   filter to_connection (snd (set_window_state everything_alive
          \<lparr>withdrawn = True, minimized = True, maximized = True, fullscreen = True\<rparr>
          example_shown)) =
     [Set_property_WM_STATE 42 300 [0, 0], Xcb_delete_property 42 305]"
  using withdrawn_wire_state
    [of "\<lparr>withdrawn = True, minimized = True, maximized = True, fullscreen = True\<rparr>"
        everything_alive example_shown]
  by (simp add: examples)

text \<open>
  C6. For the window that is minimized, maximized and fullscreen and not withdrawn, the
  atoms written to \<^verbatim>\<open>_NET_WM_STATE\<close> are hidden, maximized_horz, maximized_vert and
  fullscreen, in this order; they are the second request the routine sends, after
  \<^verbatim>\<open>WM_STATE\<close> = Iconic.
\<close>

theorem net_wm_state_atom_order:
  "net_wm_states c \<lparr>withdrawn = False, minimized = True, maximized = True, fullscreen = True\<rparr>
     = [net_wm_state_hidden c, net_wm_state_maximized_horz c,
        net_wm_state_maximized_vert c, net_wm_state_fullscreen c]
   \<and> filter to_connection (snd (set_window_state e
        \<lparr>withdrawn = False, minimized = True, maximized = True, fullscreen = True\<rparr> b))
     = [Set_property_WM_STATE (window b) (wm_state (connection b)) [3, 0],
        Set_property_ATOM (window b) (net_wm_state (connection b))
          [net_wm_state_hidden (connection b), net_wm_state_maximized_horz (connection b),
           net_wm_state_maximized_vert (connection b), net_wm_state_fullscreen (connection b)]]"
  by (simp add: net_wm_states_def set_window_state_def wm_state_of_def XCB_WINDOW_NONE_def
      Let_def split: option.splits)

section \<open>State notifications from the scene surface\<close>

text \<open>
  C4, as the code has it. When \<^verbatim>\<open>scene_surface_state_set\<close> is called twice in a row
  with the same attribute on the bridge of a window that is not withdrawn, and the
  attribute is minimized, fullscreen, maximized or restored, no \<^verbatim>\<open>modify_surface\<close>
  request is issued by either call: the first call
  records the attribute before it propagates, so the propagation reaches the X11 side only,
  and the second call returns at once, changing nothing.
\<close>

theorem same_state_twice_never_modifies:
  "new_state \<in> {mir_window_state_minimized, mir_window_state_fullscreen,
                 mir_window_state_maximized, mir_window_state_restored} \<Longrightarrow>
   \<not> withdrawn (window_state b) \<Longrightarrow>
     modifications
       (snd (scene_surface_state_set e1 new_state b) @
        snd (scene_surface_state_set e2 new_state
               (fst (scene_surface_state_set e1 new_state b)))) = 0 \<and>
     scene_surface_state_set e2 new_state (fst (scene_surface_state_set e1 new_state b)) =
       (fst (scene_surface_state_set e1 new_state b), [])"
  by (auto simp: scene_surface_state_set_def set_window_state_def Let_def modifications_def
      mir_window_state_of_flags from_mir_window_state_def split: option.splits)

text \<open>C4 as the code has it, at fullscreen on the example bridge with its live scene surface.\<close>

theorem same_state_twice_never_modifies_witness:
  "mir_window_state_fullscreen \<in> {mir_window_state_minimized, mir_window_state_fullscreen,
                 mir_window_state_maximized, mir_window_state_restored} \<and>
   \<not> withdrawn (window_state example_shown) \<and>
   modifications
     (snd (scene_surface_state_set everything_alive mir_window_state_fullscreen example_shown) @
      snd (scene_surface_state_set everything_alive mir_window_state_fullscreen
             (fst (scene_surface_state_set everything_alive mir_window_state_fullscreen
                     example_shown)))) = 0"
  using same_state_twice_never_modifies
    [of mir_window_state_fullscreen example_shown everything_alive everything_alive]
  by (simp add: modifications_def examples)

text \<open>
  C4 as stated asks for exactly one \<^verbatim>\<open>modify_surface\<close> request. On the example bridge,
  whose scene surface 5 is alive and whose cached attribute is restored, two consecutive
  notifications of fullscreen issue none.
\<close>

theorem fullscreen_twice_modifies_nothing:
  "lock_surface everything_alive (weak_scene_surface example_shown) = Some 5 \<and>
   modifications
     (snd (run [(everything_alive, Scene_surface_state_set mir_window_state_fullscreen),
                (everything_alive, Scene_surface_state_set mir_window_state_fullscreen)]
             example_shown)) \<noteq> 1"
  by (simp add: examples operations mir_window_state_of_flags Let_def modifications_def)

section \<open>State messages from the client\<close>

lemma apply_action_code: "apply_action (action_code a) v = act a v"
  by (cases a) (simp_all add: apply_action_def)

text \<open>One round of the handler's loop acts on the property its atom names.\<close>

lemma update_property_named:
  "update_property c (action_code a) t s =
     (case named_property c t of
        None \<Rightarrow> s
      | Some Minimized \<Rightarrow> s\<lparr>minimized := act a (minimized s)\<rparr>
      | Some Maximized \<Rightarrow> s\<lparr>maximized := act a (maximized s)\<rparr>
      | Some Fullscreen \<Rightarrow> s\<lparr>fullscreen := act a (fullscreen s)\<rparr>)"
  by (simp add: update_property_def named_property_def apply_action_code)

lemma two_rounds:
  "update_property c (action_code a) t2 (update_property c (action_code a) t1 s) =
     (if toggles_twice c (a, t1, t2, x, y) then s
      else message_transformation c (a, t1, t2, x, y) s)"
  unfolding update_property_named
  by (cases "named_property c t1"; cases "named_property c t2"; cases a)
     (auto simp: toggles_twice_def message_transformation_def apply_legacy_state_message_def
        target_properties_def split: state_property.splits)

lemma client_message_is_transformation:
  "window_state (fst (net_wm_state_client_message e (encode_message m) b)) =
     (if toggles_twice (connection b) m then window_state b
      else message_transformation (connection b) m (window_state b))"
proof -
  obtain a t1 t2 x y where m: "m = (a, t1, t2, x, y)" by (cases m)
  show ?thesis
    using two_rounds [of "connection b" a t2 t1 "window_state b" x y]
    by (simp add: m net_wm_state_client_message_def encode_message_def
        set_window_state_fields)
qed

lemma client_message_connection:
  "connection (fst (net_wm_state_client_message e d b)) = connection b"
  by (cases d) (simp add: net_wm_state_client_message_def set_window_state_fields)

lemma run_state_messages:
  "window_state (fst (run (state_messages ms) b)) =
     foldl (\<lambda>s (e, m). if toggles_twice (connection b) m then s
                        else message_transformation (connection b) m s)
       (window_state b) ms"
proof (induction ms arbitrary: b)
  case Nil
  show ?case by (simp add: state_messages_def)
next
  case (Cons em ms)
  obtain e m where em: "em = (e, m)" by (cases em)
  let ?b1 = "fst (net_wm_state_client_message e (encode_message m) b)"
  have c: "connection ?b1 = connection b"
    by (rule client_message_connection)
  have "fst (run (state_messages (em # ms)) b) = fst (run (state_messages ms) ?b1)"
    by (simp add: em state_messages_def split: prod.splits)
  then have "window_state (fst (run (state_messages (em # ms)) b)) =
     foldl (\<lambda>s (e, m). if toggles_twice (connection b) m then s
                        else message_transformation (connection b) m s)
       (window_state ?b1) ms"
    using Cons.IH [of ?b1] unfolding c by simp
  then show ?case
    by (simp add: em client_message_is_transformation)
qed

lemma run_state_messages_without_double_toggle:
  assumes "\<forall>(e, m) \<in> set ms. \<not> toggles_twice (connection b) m"
  shows "window_state (fst (run (state_messages ms) b)) =
     foldl (\<lambda>s (e, m). message_transformation (connection b) m s) (window_state b) ms"
proof -
  have "foldl (\<lambda>s (e, m). if toggles_twice (connection b) m then s
                          else message_transformation (connection b) m s)
          (window_state b) ms =
        foldl (\<lambda>s (e, m). message_transformation (connection b) m s) (window_state b) ms"
    using assms by (intro foldl_cong) auto
  then show ?thesis by (simp add: run_state_messages)
qed

lemma unrecognized_unchanged:
  "t1 \<notin> {net_wm_state_hidden (connection b), net_wm_state_maximized_horz (connection b),
          net_wm_state_fullscreen (connection b)} \<Longrightarrow>
   t2 \<notin> {net_wm_state_hidden (connection b), net_wm_state_maximized_horz (connection b),
          net_wm_state_fullscreen (connection b)} \<Longrightarrow>
   window_state (fst (net_wm_state_client_message e (action, t1, t2, x, y) b)) = window_state b"
  by (simp add: net_wm_state_client_message_def set_window_state_fields update_property_def)

text \<open>
  C7, as the code has it. After any sequence of \<^verbatim>\<open>_NET_WM_STATE\<close> client messages
  (Add, Remove or Toggle over two target slots), whatever the outside world answers in
  between, the window state of the bridge is the fold, from the window state the bridge
  had (the all-false state included), of this per-message transformation: a Toggle whose
  two slots name the same property leaves the state as it is, the handler toggling that
  property twice; every other message acts as the specification's
  \<^verbatim>\<open>apply_legacy_state_message\<close> on the set of properties its slots name. So for a
  sequence with no such Toggle the window state is the fold of the specification's
  transformation. A message whose two target atoms are none of the hidden, maximized_horz
  and fullscreen atoms leaves the window state as it was; the handler has no failing
  branch.
\<close>

theorem state_messages_fold:
  "window_state (fst (run (state_messages ms) b)) =
     foldl (\<lambda>s (e, m). if toggles_twice (connection b) m then s
                        else message_transformation (connection b) m s)
       (window_state b) ms \<and>
   ((\<forall>(e, m) \<in> set ms. \<not> toggles_twice (connection b) m) \<longrightarrow>
      window_state (fst (run (state_messages ms) b)) =
        foldl (\<lambda>s (e, m). message_transformation (connection b) m s) (window_state b) ms) \<and>
   (t1 \<notin> {net_wm_state_hidden (connection b), net_wm_state_maximized_horz (connection b),
           net_wm_state_fullscreen (connection b)} \<and>
    t2 \<notin> {net_wm_state_hidden (connection b), net_wm_state_maximized_horz (connection b),
           net_wm_state_fullscreen (connection b)} \<longrightarrow>
      window_state (fst (net_wm_state_client_message e (action, t1, t2, x, y) b)) =
        window_state b)"
  using run_state_messages [of ms b] run_state_messages_without_double_toggle [of ms b]
    unrecognized_unchanged [of t1 b t2 e action x y]
  by blast

text \<open>
  C7 as the code has it, on the example bridge, which starts all-false: Add fullscreen
  and hidden, Toggle maximized_horz, Remove hidden and the unknown atom 999 contain no
  double Toggle and end in maximized and fullscreen, as the fold of the specification's
  transformation does; a Toggle of the unknown atoms 998 and 999 changes nothing.
\<close>

theorem state_messages_fold_witness:
  "\<not> toggles_twice (connection example_bridge) (Add, 309, 306, 1, 0) \<and>
   \<not> toggles_twice (connection example_bridge) (Toggle, 307, 0, 1, 0) \<and>
   \<not> toggles_twice (connection example_bridge) (Remove, 306, 999, 1, 0) \<and>
   window_state (fst (run (state_messages
       [(everything_alive, (Add, 309, 306, 1, 0)),
        (everything_alive, (Toggle, 307, 0, 1, 0)),
        (everything_alive, (Remove, 306, 999, 1, 0))]) example_bridge)) =
     \<lparr>withdrawn = False, minimized = False, maximized = True, fullscreen = True\<rparr> \<and>
   foldl (\<lambda>s (e, m). message_transformation (connection example_bridge) m s)
     (window_state example_bridge)
       [(everything_alive, (Add, 309, 306, 1, 0)),
        (everything_alive, (Toggle, 307, 0, 1, 0)),
        (everything_alive, (Remove, 306, 999, 1, 0))] =
     \<lparr>withdrawn = False, minimized = False, maximized = True, fullscreen = True\<rparr> \<and>
   (998 :: 32 word) \<notin> {net_wm_state_hidden (connection example_bridge),
      net_wm_state_maximized_horz (connection example_bridge),
      net_wm_state_fullscreen (connection example_bridge)} \<and>
   (999 :: 32 word) \<notin> {net_wm_state_hidden (connection example_bridge),
      net_wm_state_maximized_horz (connection example_bridge),
      net_wm_state_fullscreen (connection example_bridge)} \<and>
   window_state (fst (net_wm_state_client_message everything_alive (2, 998, 999, 1, 0)
      example_bridge)) = all_false"
  using state_messages_fold
    [of "[(everything_alive, (Add, 309, 306, 1, 0)),
          (everything_alive, (Toggle, 307, 0, 1, 0)),
          (everything_alive, (Remove, 306, 999, 1, 0))]"
        example_bridge 998 999 everything_alive 2 1 0]
  by (simp add: message_transformation_def apply_legacy_state_message_def
      target_properties_def named_property_def toggles_twice_def examples)

text \<open>
  C7 as stated has the window state equal the fold of the specification's transformation
  for every sequence. On the all-false example bridge the one message Toggle
  (maximized_horz, maximized_horz) leaves maximized false, the handler toggling it twice,
  while the specification's transformation, acting once on the set it names, makes it
  true.
\<close>

theorem double_toggle_differs_from_set_reading:
  "maximized (window_state (fst (run (state_messages
       [(everything_alive, (Toggle, 307, 307, 1, 0))]) example_bridge))) = False \<and>
   maximized (foldl (\<lambda>s (e, m). message_transformation (connection example_bridge) m s)
       (window_state example_bridge) [(everything_alive, (Toggle, 307, 307, 1, 0))]) = True"
  by (simp add: state_messages_def encode_message_def message_transformation_def
      apply_legacy_state_message_def target_properties_def named_property_def
      examples operations Let_def)

section \<open>Attaching the windowing surface\<close>

lemma create_keeps_observer:
  "surface_observer (fst (create_scene_surface_if_needed e b)) = surface_observer b"
  by (simp add: create_scene_surface_if_needed_def Let_def split: option.splits)

lemma observer_kept:
  "surface_observer b \<noteq> None \<Longrightarrow> op \<noteq> Close \<Longrightarrow> op \<noteq> Wl_surface_destroyed \<Longrightarrow>
     surface_observer (fst (step e op b)) \<noteq> None"
  by (cases op)
     (auto simp: map_window_def unmap_def net_wm_state_client_message_def
        wm_change_state_client_message_def set_window_state_fields dirty_properties_def
        set_surface_def set_workspace_def read_properties_def scene_surface_state_set_def
        scene_surface_resized_def scene_surface_close_requested_def wl_surface_committed_def
        create_keeps_observer Let_def split: prod.splits)

text \<open>
  C8, as the code has it. \<^verbatim>\<open>set_surface\<close> throws, before it writes any member, exactly
  when the bridge already holds an observer or its recorded session is still alive;
  otherwise it succeeds, whether or not a session could be resolved from the windowing
  surface, and records the observer and the resolved (possibly null) session. After a
  successful call a further call on the resulting bridge throws, whatever the outside
  world answers, and no member function other than \<^verbatim>\<open>close\<close> and
  \<^verbatim>\<open>wl_surface_destroyed\<close> releases the observer.
\<close>

theorem set_surface_guard:
  "(surface_observer b \<noteq> None \<or> lock_session e (weak_session b) \<noteq> None \<longrightarrow>
      set_surface e wl ob b = Inl Set_surface_called_multiple_times) \<and>
   (surface_observer b = None \<and> lock_session e (weak_session b) = None \<longrightarrow>
      (\<exists>b1 calls. set_surface e wl ob b = Inr (b1, calls) \<and>
         surface_observer b1 = Some ob \<and> weak_session b1 = resource_session wl)) \<and>
   (\<forall>b1 calls. set_surface e wl ob b = Inr (b1, calls) \<longrightarrow>
      set_surface e' wl' ob' b1 = Inl Set_surface_called_multiple_times) \<and>
   (surface_observer b \<noteq> None \<and> op \<noteq> Close \<and> op \<noteq> Wl_surface_destroyed \<longrightarrow>
      surface_observer (fst (step e' op b)) \<noteq> None)"
  using observer_kept [of b op e']
  by (auto simp: set_surface_def Let_def create_scene_surface_if_needed_def
      split: option.splits if_splits)

text \<open>
  C8 as the code has it, on the example bridge: the first call succeeds, and a second
  call throws although session 1 has gone away by then, the observer being still held.
\<close>

theorem set_surface_guard_witness:
  "surface_observer example_bridge = None \<and>
   lock_session everything_alive (weak_session example_bridge) = None \<and>
   set_surface everything_alive example_wl 7 example_bridge = Inr (example_attached, []) \<and>
   surface_observer example_attached \<noteq> None \<and>
   set_surface session_gone other_wl 8 example_attached =
     Inl Set_surface_called_multiple_times"
  using set_surface_guard
      [of example_bridge everything_alive example_wl 7 session_gone other_wl 8 Map]
    set_surface_guard [of example_attached session_gone other_wl 8 _ _ _ Map]
  by (simp add: examples operations Let_def)

text \<open>
  C8 as stated has \<^verbatim>\<open>set_surface\<close> fail when no session can be resolved, and on every
  second call. On the new example bridge a windowing surface whose session resolves to null
  is attached without an exception; and once the attached bridge has been closed and its
  session 1 has gone away, a second \<^verbatim>\<open>set_surface\<close>, with a windowing surface of
  session 2, succeeds.
\<close>

theorem attach_without_session_succeeds:
  "set_surface everything_alive (example_wl\<lparr>resource_session := None\<rparr>) 7 example_bridge =
     Inr (example_attached\<lparr>weak_session := None\<rparr>, []) \<and>
   set_surface session_gone other_wl 8 (fst (close everything_alive example_attached)) =
     Inr (example_attached\<lparr>surface_observer := Some 8, weak_session := Some 2\<rparr>, [])"
  by (simp add: examples operations Let_def)

section \<open>Deferred creation of the scene surface\<close>

lemma create_cases:
  "create_scene_surface_if_needed e b = (b, []) \<or>
   (\<exists>ses p ob. surface_observer b = Some ob \<and> lock_session e (weak_session b) = Some ses \<and>
      create_scene_surface_if_needed e b =
        (b\<lparr>creation_params := None, weak_scene_surface := Some (created_surface e)\<rparr>,
         [Shell_create_surface ses p ob]))"
  by (simp add: create_scene_surface_if_needed_def Let_def split: option.splits)

text \<open>A scene surface is only ever recorded while an observer is held.\<close>

lemma step_keeps_observer_invariant:
  assumes "surface_observer b = None \<longrightarrow> weak_scene_surface b = None"
  shows "surface_observer (fst (step e op b)) = None \<longrightarrow>
         weak_scene_surface (fst (step e op b)) = None"
proof (cases op)
  case (Set_surface wl ob)
  show ?thesis
    using assms
      create_cases [of e "b\<lparr>surface_observer := Some ob,
          weak_session := resource_session wl,
          creation_params := Some (default_params
            \<lparr>streams := Some (surface_streams wl),
             input_shape := Some (surface_input_shape wl)\<rparr>)\<rparr>"]
    by (auto simp: Set_surface set_surface_def Let_def)
next
  case Wl_surface_committed
  show ?thesis
    using assms create_cases [of e b]
    by (auto simp: Wl_surface_committed wl_surface_committed_def)
qed (use assms in \<open>auto simp: map_window_def unmap_def close_def Let_def
      net_wm_state_client_message_def wm_change_state_client_message_def
      set_window_state_fields dirty_properties_def set_workspace_def read_properties_def
      scene_surface_state_set_def scene_surface_resized_def scene_surface_close_requested_def
      wl_surface_destroyed_def split: prod.splits\<close>)

lemma reachable_observer_invariant:
  "reachable b \<Longrightarrow> surface_observer b = None \<longrightarrow> weak_scene_surface b = None"
proof (induction rule: reachable.induct)
  case (constructed c w i ws ms ps)
  show ?case by (simp add: new_XWaylandSurface_def)
next
  case (called b e op)
  from called.IH show ?case by (rule step_keeps_observer_invariant)
qed

lemma creations_append: "creations (xs @ ys) = creations xs + creations ys"
  by (simp add: creations_def)

lemma creations_Nil: "creations [] = 0"
  by (simp add: creations_def)

lemma create_without_params:
  "creation_params b = None \<Longrightarrow> create_scene_surface_if_needed e b = (b, [])"
  by (simp add: create_scene_surface_if_needed_def split: option.splits)

lemma create_without_session:
  "lock_session e (weak_session b) = None \<Longrightarrow> create_scene_surface_if_needed e b = (b, [])"
  by (simp add: create_scene_surface_if_needed_def split: option.splits)

lemma create_when_ready:
  assumes "weak_scene_surface b = None" "creation_params b \<noteq> None"
    "surface_observer b \<noteq> None" "lock_session e (weak_session b) \<noteq> None"
  shows "creations (snd (create_scene_surface_if_needed e b)) = 1"
    "creation_params (fst (create_scene_surface_if_needed e b)) = None"
  using assms
  by (auto simp: create_scene_surface_if_needed_def lock_surface_def creations_def Let_def
      split: option.splits)

lemma run_commits_Nil: "run (commits []) b = (b, [])"
  by (simp add: commits_def)

lemma run_commits_Cons:
  "snd (run (commits (e # es)) b) =
     snd (create_scene_surface_if_needed e b) @
     snd (run (commits es) (fst (create_scene_surface_if_needed e b)))"
  by (simp add: commits_def wl_surface_committed_def split: prod.splits)

lemma commits_without_params:
  "creation_params b = None \<Longrightarrow> run (commits es) b = (b, [])"
  by (induction es) (simp_all add: commits_def wl_surface_committed_def create_without_params)

lemma commits_at_most_once: "creations (snd (run (commits es) b)) \<le> 1"
proof (induction es)
  case Nil
  show ?case by (simp add: run_commits_Nil creations_Nil)
next
  case (Cons e es)
  from create_cases [of e b] show ?case
  proof
    assume "create_scene_surface_if_needed e b = (b, [])"
    then have "snd (run (commits (e # es)) b) = snd (run (commits es) b)"
      by (simp add: run_commits_Cons)
    then show ?thesis using Cons.IH by simp
  next
    assume "\<exists>ses p ob. surface_observer b = Some ob \<and>
      lock_session e (weak_session b) = Some ses \<and>
      create_scene_surface_if_needed e b =
        (b\<lparr>creation_params := None, weak_scene_surface := Some (created_surface e)\<rparr>,
         [Shell_create_surface ses p ob])"
    then obtain ses p ob where made: "create_scene_surface_if_needed e b =
        (b\<lparr>creation_params := None, weak_scene_surface := Some (created_surface e)\<rparr>,
         [Shell_create_surface ses p ob])"
      by blast
    let ?b1 = "b\<lparr>creation_params := None, weak_scene_surface := Some (created_surface e)\<rparr>"
    have "run (commits es) ?b1 = (?b1, [])"
      by (rule commits_without_params) simp
    then have "snd (run (commits (e # es)) b) = [Shell_create_surface ses p ob]"
      using made by (simp add: run_commits_Cons)
    then show ?thesis by (simp add: creations_def)
  qed
qed

lemma attach_without_buffer:
  assumes "set_surface e0 wl ob b = Inr (b1, calls1)" "buffer_size wl = None"
  shows "calls1 = []" "creation_params b1 \<noteq> None" "surface_observer b1 = Some ob"
    "weak_session b1 = resource_session wl" "weak_scene_surface b1 = weak_scene_surface b"
  using assms by (auto simp: set_surface_def Let_def split: if_splits)

lemma attach_with_buffer:
  assumes "set_surface e0 wl ob b = Inr (b1, calls1)" "buffer_size wl \<noteq> None"
    "weak_scene_surface b = None" "lock_session e0 (resource_session wl) \<noteq> None"
  shows "creations calls1 = 1" "creation_params b1 = None"
  using assms
  by (auto simp: set_surface_def Let_def create_scene_surface_if_needed_def lock_surface_def
      creations_def split: if_splits option.splits)

lemma attach_cases:
  "set_surface e0 wl ob b = Inr (b1, calls1) \<Longrightarrow>
     calls1 = [] \<or> (creations calls1 = 1 \<and> creation_params b1 = None)"
  by (auto simp: set_surface_def create_scene_surface_if_needed_def Let_def creations_def
      split: if_splits option.splits)

text \<open>
  C2, as the code has it. Let \<^verbatim>\<open>set_surface\<close> succeed on a bridge that calls of its
  member functions have produced from a new one. If the windowing surface has no committed
  buffer, the call does not invoke \<^verbatim>\<open>create_surface\<close>. Whatever commits follow,
  \<^verbatim>\<open>create_surface\<close> is invoked at most once in all. It is invoked exactly once, however
  many commits follow, if the session resolved from the windowing surface is alive at the
  first commit (or at the call itself, for a surface that already has a committed buffer);
  a commit at which that session is null or gone creates nothing.
\<close>

theorem deferred_creation:
  assumes "reachable b" and "set_surface e0 wl ob b = Inr (b1, calls1)"
  shows "(buffer_size wl = None \<longrightarrow> creations calls1 = 0) \<and>
         creations (calls1 @ snd (run (commits es) b1)) \<le> 1 \<and>
         (buffer_size wl = None \<and> lock_session e1 (resource_session wl) \<noteq> None \<longrightarrow>
            creations (calls1 @ snd (run (commits (e1 # es)) b1)) = 1) \<and>
         (buffer_size wl = None \<and> lock_session e1 (resource_session wl) = None \<longrightarrow>
            creations (calls1 @ snd (run (commits [e1]) b1)) = 0) \<and>
         (buffer_size wl \<noteq> None \<and> lock_session e0 (resource_session wl) \<noteq> None \<longrightarrow>
            creations calls1 = 1 \<and> creations (calls1 @ snd (run (commits es) b1)) = 1)"
proof -
  have "surface_observer b = None"
    using assms(2) by (auto simp: set_surface_def split: if_splits)
  then have no_surface: "weak_scene_surface b = None"
    using reachable_observer_invariant [OF assms(1)] by simp
  have first: "buffer_size wl = None \<longrightarrow> creations calls1 = 0"
    using attach_without_buffer(1) [OF assms(2)] by (simp add: creations_Nil)
  have once: "creations (calls1 @ snd (run (commits es) b1)) \<le> 1"
    using attach_cases [OF assms(2)] commits_at_most_once [of es b1]
      commits_without_params [of b1 es]
    by (auto simp: creations_append creations_Nil)
  have deferred: "creations (calls1 @ snd (run (commits (e1 # es)) b1)) = 1"
    if "buffer_size wl = None" "lock_session e1 (resource_session wl) \<noteq> None"
  proof -
    note a = attach_without_buffer [OF assms(2) that(1)]
    have ready: "weak_scene_surface b1 = None" "creation_params b1 \<noteq> None"
      "surface_observer b1 \<noteq> None" "lock_session e1 (weak_session b1) \<noteq> None"
      using a no_surface that(2) by simp_all
    have "run (commits es) (fst (create_scene_surface_if_needed e1 b1)) =
            (fst (create_scene_surface_if_needed e1 b1), [])"
      using create_when_ready(2) [OF ready] by (rule commits_without_params)
    then show ?thesis
      using create_when_ready(1) [OF ready] a(1)
      by (simp add: run_commits_Cons creations_append creations_Nil)
  qed
  have absent: "creations (calls1 @ snd (run (commits [e1]) b1)) = 0"
    if "buffer_size wl = None" "lock_session e1 (resource_session wl) = None"
  proof -
    note a = attach_without_buffer [OF assms(2) that(1)]
    have "create_scene_surface_if_needed e1 b1 = (b1, [])"
      using a(4) that(2) by (simp add: create_without_session)
    then show ?thesis
      using a(1) by (simp add: run_commits_Cons run_commits_Nil creations_Nil)
  qed
  have immediate: "creations calls1 = 1 \<and> creations (calls1 @ snd (run (commits es) b1)) = 1"
    if "buffer_size wl \<noteq> None" "lock_session e0 (resource_session wl) \<noteq> None"
  proof -
    note a = attach_with_buffer [OF assms(2) that(1) no_surface that(2)]
    show ?thesis
      using a(1) commits_without_params [OF a(2), of es]
      by (simp add: creations_append creations_Nil)
  qed
  show ?thesis
    using first once deferred absent immediate by blast
qed

text \<open>
  C2 as the code has it, on the example bridge: attached without a buffer, then two
  commits with the session alive, and \<^verbatim>\<open>create_surface\<close> is invoked once.
\<close>

theorem deferred_creation_witness:
  "reachable example_bridge \<and>
   set_surface everything_alive example_wl 7 example_bridge = Inr (example_attached, []) \<and>
   buffer_size example_wl = None \<and>
   lock_session everything_alive (resource_session example_wl) \<noteq> None \<and>
   creations ([] @ snd (run (commits [everything_alive, everything_alive]) example_attached))
     = 1"
  using deferred_creation
      [OF example_reachable example_attach, of "[everything_alive]" everything_alive]
    example_reachable example_attach
  by (simp add: example_wl_def lock_session_def everything_alive_def)

text \<open>
  C2 as stated has one commit always invoke \<^verbatim>\<open>create_surface\<close> exactly once. On the
  example bridge, attached to a surface of session 1 with no committed buffer, a commit
  that arrives after session 1 has gone away invokes it not at all.
\<close>

theorem commit_after_session_loss_creates_nothing:
  "surface_observer
     (fst (run [(everything_alive, Set_surface example_wl 7)] example_bridge)) = Some 7 \<and>
   creations (snd (run [(everything_alive, Set_surface example_wl 7),
                        (session_gone, Wl_surface_committed)] example_bridge)) \<noteq> 1"
  by (simp add: examples operations Let_def creations_def)

section \<open>Closing\<close>

text \<open>
  C3. A second \<^verbatim>\<open>close\<close> right after a first one makes no call at all (it removes no
  observer, asks the shell to destroy nothing, raises no fatal error) and returns the
  bridge exactly as the first call left it, whatever the outside world answers.
\<close>

theorem close_twice:
  "close e2 (fst (close e1 b)) = (fst (close e1 b), [])"
  by (simp add: close_def Let_def lock_surface_def)

section \<open>Workspace\<close>

lemma nonneg_sint: "0 \<le> sint (w :: 32 word) \<Longrightarrow> uint w = sint w"
proof -
  assume h: "0 \<le> sint w"
  have b: "0 \<le> uint w" "uint w < 2 ^ 32"
    using uint_lt2p [of w] by simp_all
  have s: "sint w = (uint w + 2 ^ 31) mod 2 ^ 32 - 2 ^ 31"
    by (simp add: sint_uint signed_take_bit_eq_take_bit_shift take_bit_eq_mod)
  show ?thesis
  proof (cases "uint w < 2 ^ 31")
    case True
    then have "(uint w + 2 ^ 31) mod 2 ^ 32 = uint w + 2 ^ 31"
      using b by simp
    then show ?thesis using s by simp
  next
    case False
    then have "(uint w + 2 ^ 31) mod 2 ^ 32 = uint w + 2 ^ 31 - 2 ^ 32"
      using b by (simp add: mod_pos_geq)
    then have "sint w < 0" using s b by simp
    then show ?thesis using h by simp
  qed
qed

text \<open>
  C10. \<^verbatim>\<open>set_workspace\<close> leaves the bridge as it is. For a non-negative argument it
  sets \<^verbatim>\<open>_NET_WM_DESKTOP\<close> of the window to the argument, whose unsigned reading is the
  same number, and flushes; for a negative argument it deletes the property and flushes.
\<close>

theorem set_workspace_effect:
  "fst (set_workspace w b) = b \<and>
   (0 \<le> sint w \<longrightarrow>
      snd (set_workspace w b) =
        [Set_property_CARDINAL32 (window b) (net_wm_desktop (connection b)) w, Flush] \<and>
      uint w = sint w) \<and>
   (sint w < 0 \<longrightarrow>
      snd (set_workspace w b) =
        [Connection_delete_property (window b) (net_wm_desktop (connection b)), Flush])"
  by (simp add: set_workspace_def nonneg_sint)

text \<open>C10 on the example bridge, for workspace 3 and for workspace -1.\<close>

theorem set_workspace_effect_witness:
  "0 \<le> sint (3 :: 32 word) \<and>
   set_workspace 3 example_bridge =
     (example_bridge, [Set_property_CARDINAL32 42 304 3, Flush]) \<and>
   sint (- 1 :: 32 word) < 0 \<and>
   set_workspace (- 1) example_bridge =
     (example_bridge, [Connection_delete_property 42 304, Flush])"
  using set_workspace_effect [of 3 example_bridge]
    set_workspace_effect [of "- 1" example_bridge]
  by (simp add: prod_eq_iff examples)

section \<open>Reading the cached properties\<close>

lemma step_appId:
  "a \<in> set (read_properties_actions c) \<Longrightarrow>
     appId (run_action e a p) = appId p \<or>
     string_reply e XCB_ATOM_WM_CLASS = Some (appId (run_action e a p))"
  by (auto simp: read_properties_actions_def wm_class_action_def wm_name_action_def
      net_wm_name_action_def wm_protocols_action_def split: option.splits)

lemma wm_class_step:
  "appId (run_action e wm_class_action p) =
     (case string_reply e XCB_ATOM_WM_CLASS of None \<Rightarrow> appId p | Some v \<Rightarrow> v)"
  by (simp add: wm_class_action_def split: option.splits)

lemma appId_kept:
  "set acts \<subseteq> set (read_properties_actions c) \<Longrightarrow>
   string_reply e XCB_ATOM_WM_CLASS = None \<or> string_reply e XCB_ATOM_WM_CLASS = Some (appId p) \<Longrightarrow>
   appId (run_actions e acts p) = appId p"
proof (induction acts arbitrary: p)
  case Nil
  show ?case by simp
next
  case (Cons a acts)
  have "appId (run_action e a p) = appId p"
    using step_appId [of a c e p] Cons.prems by auto
  then show ?case using Cons.IH [of "run_action e a p"] Cons.prems by simp
qed

lemma appId_with_reply:
  "set acts \<subseteq> set (read_properties_actions c) \<Longrightarrow> wm_class_action \<in> set acts \<Longrightarrow>
   string_reply e XCB_ATOM_WM_CLASS = Some v \<Longrightarrow>
   appId (run_actions e acts p) = v"
proof (induction acts arbitrary: p)
  case Nil
  then show ?case by simp
next
  case (Cons a acts)
  show ?case
  proof (cases "wm_class_action \<in> set acts")
    case True
    then show ?thesis using Cons.IH [of "run_action e a p"] Cons.prems by simp
  next
    case False
    then have a: "a = wm_class_action" using Cons.prems by simp
    have "appId (run_action e a p) = v"
      using Cons.prems(3) by (simp add: a wm_class_step)
    then show ?thesis
      using appId_kept [of acts c e "run_action e a p"] Cons.prems by simp
  qed
qed

lemma step_deleteWindow:
  "a \<in> set (read_properties_actions c) \<Longrightarrow>
     deleteWindow (run_action e a p) = deleteWindow p \<or>
     (deleteWindow (run_action e a p) \<and> close_supported e c)"
  by (auto simp: read_properties_actions_def wm_class_action_def wm_name_action_def
      net_wm_name_action_def wm_protocols_action_def close_supported_def
      split: option.splits if_splits)

lemma wm_protocols_step:
  "deleteWindow (run_action e (wm_protocols_action c) p) =
     (deleteWindow p \<or> close_supported e c)"
  by (simp add: wm_protocols_action_def close_supported_def split: option.splits)

lemma deleteWindow_kept:
  "set acts \<subseteq> set (read_properties_actions c) \<Longrightarrow>
   deleteWindow p \<or> \<not> close_supported e c \<Longrightarrow>
   deleteWindow (run_actions e acts p) = deleteWindow p"
proof (induction acts arbitrary: p)
  case Nil
  show ?case by simp
next
  case (Cons a acts)
  have "deleteWindow (run_action e a p) = deleteWindow p"
    using step_deleteWindow [of a c e p] Cons.prems by auto
  then show ?case using Cons.IH [of "run_action e a p"] Cons.prems by simp
qed

lemma deleteWindow_set:
  "set acts \<subseteq> set (read_properties_actions c) \<Longrightarrow> wm_protocols_action c \<in> set acts \<Longrightarrow>
   deleteWindow (run_actions e acts p) = (deleteWindow p \<or> close_supported e c)"
proof (induction acts arbitrary: p)
  case Nil
  then show ?case by simp
next
  case (Cons a acts)
  show ?case
  proof (cases "deleteWindow p \<or> \<not> close_supported e c")
    case True
    then show ?thesis using deleteWindow_kept [of "a # acts" c p e] Cons.prems by auto
  next
    case open_question: False
    show ?thesis
    proof (cases "wm_protocols_action c \<in> set acts")
      case True
      then show ?thesis
        using Cons.IH [of "run_action e a p"] Cons.prems open_question by auto
    next
      case False
      then have a: "a = wm_protocols_action c" using Cons.prems by simp
      have "deleteWindow (run_action e a p)"
        using open_question by (simp add: a wm_protocols_step)
      then show ?thesis
        using deleteWindow_kept [of acts c "run_action e a p" e] Cons.prems open_question
        by simp
    qed
  qed
qed

lemma title_in_issue_order:
  "title (run_actions e (read_properties_actions c) p) =
     (case string_reply e (net_wm_name c) of
        Some v \<Rightarrow> v
      | None \<Rightarrow> (case string_reply e XCB_ATOM_WM_NAME of Some v \<Rightarrow> v | None \<Rightarrow> title p))"
  by (simp add: read_properties_actions_def wm_class_action_def wm_name_action_def
      net_wm_name_action_def wm_protocols_action_def split: option.splits)

text \<open>
  C9, as the code has it. Of the four continuations issued by \<^verbatim>\<open>read_properties\<close>,
  only the one for \<^verbatim>\<open>WM_CLASS\<close> writes the application id and only the one for
  \<^verbatim>\<open>WM_PROTOCOLS\<close> writes the close-request capability, so in whatever order the four
  run (\<open>acts\<close> is any rearrangement of them) these two fields end with the same value.
  The title is written by two continuations, for \<^verbatim>\<open>WM_NAME\<close> and for
  \<^verbatim>\<open>_NET_WM_NAME\<close>; \<^verbatim>\<open>read_properties\<close> runs the continuations in the order it issued
  them, so that the title is the \<^verbatim>\<open>_NET_WM_NAME\<close> value when that property is set,
  else the \<^verbatim>\<open>WM_NAME\<close> value, else the title cached before.
\<close>

theorem read_properties_field_writers:
  assumes "mset acts = mset (read_properties_actions c)"
  shows
    "appId (run_action e wm_name_action p) = appId p \<and>
     appId (run_action e (net_wm_name_action c) p) = appId p \<and>
     appId (run_action e (wm_protocols_action c) p) = appId p \<and>
     deleteWindow (run_action e wm_class_action p) = deleteWindow p \<and>
     deleteWindow (run_action e wm_name_action p) = deleteWindow p \<and>
     deleteWindow (run_action e (net_wm_name_action c) p) = deleteWindow p \<and>
     appId (run_actions e acts p) =
       (case string_reply e XCB_ATOM_WM_CLASS of None \<Rightarrow> appId p | Some v \<Rightarrow> v) \<and>
     deleteWindow (run_actions e acts p) = (deleteWindow p \<or> close_supported e c) \<and>
     (props_dirty b \<and> connection b = c \<longrightarrow>
        title (properties (fst (read_properties e b))) =
          (case string_reply e (net_wm_name c) of
             Some v \<Rightarrow> v
           | None \<Rightarrow> (case string_reply e XCB_ATOM_WM_NAME of
                        Some v \<Rightarrow> v
                      | None \<Rightarrow> title (properties b))))"
proof -
  have "set acts = set (read_properties_actions c)"
    using assms by (rule mset_eq_setD)
  then have sub: "set acts \<subseteq> set (read_properties_actions c)"
    and cls: "wm_class_action \<in> set acts" and prot: "wm_protocols_action c \<in> set acts"
    by (simp_all add: read_properties_actions_def)
  have single:
    "appId (run_action e wm_name_action p) = appId p \<and>
     appId (run_action e (net_wm_name_action c) p) = appId p \<and>
     appId (run_action e (wm_protocols_action c) p) = appId p \<and>
     deleteWindow (run_action e wm_class_action p) = deleteWindow p \<and>
     deleteWindow (run_action e wm_name_action p) = deleteWindow p \<and>
     deleteWindow (run_action e (net_wm_name_action c) p) = deleteWindow p"
    by (simp add: wm_class_action_def wm_name_action_def net_wm_name_action_def
        wm_protocols_action_def split: option.splits)
  have app: "appId (run_actions e acts p) =
       (case string_reply e XCB_ATOM_WM_CLASS of None \<Rightarrow> appId p | Some v \<Rightarrow> v)"
    using appId_kept [OF sub, of e p] appId_with_reply [OF sub cls, of e _ p]
    by (simp split: option.splits)
  have del: "deleteWindow (run_actions e acts p) = (deleteWindow p \<or> close_supported e c)"
    using deleteWindow_set [OF sub prot, of e p] by simp
  have ttl: "props_dirty b \<and> connection b = c \<longrightarrow>
        title (properties (fst (read_properties e b))) =
          (case string_reply e (net_wm_name c) of
             Some v \<Rightarrow> v
           | None \<Rightarrow> (case string_reply e XCB_ATOM_WM_NAME of
                        Some v \<Rightarrow> v
                      | None \<Rightarrow> title (properties b)))"
    using title_in_issue_order [of e c "(properties b)\<lparr>deleteWindow := False\<rparr>"]
    by (simp add: read_properties_def Let_def split: option.splits)
  show ?thesis
    using single app del ttl by simp
qed

text \<open>
  C9 as the code has it, with the four continuations run in the reverse order and the
  replies of the example window.
\<close>

theorem read_properties_field_writers_witness:
  "mset (rev (read_properties_actions example_connection)) =
     mset (read_properties_actions example_connection) \<and>
   appId (run_actions example_replies (rev (read_properties_actions example_connection))
            empty_properties) = [] \<and>
   deleteWindow (run_actions example_replies (rev (read_properties_actions example_connection))
            empty_properties) \<and>
   props_dirty example_bridge \<and> connection example_bridge = example_connection \<and>
   title (properties (fst (read_properties example_replies example_bridge))) = ''XTerm''"
  using read_properties_field_writers
    [of "rev (read_properties_actions example_connection)" example_connection
        example_replies empty_properties example_bridge]
  by (simp add: example_replies_def examples close_supported_def
      XCB_ATOM_WM_NAME_def XCB_ATOM_WM_CLASS_def)

text \<open>
  C9 as stated has every field written by at most one continuation and so independent of
  the order of the replies. With \<^verbatim>\<open>WM_NAME\<close> = xterm and \<^verbatim>\<open>_NET_WM_NAME\<close> = XTerm,
  both continuations write the title, and the final title is XTerm in the order of issue
  and xterm in the reverse order.
\<close>

theorem title_written_by_two_continuations:
  "title (run_action example_replies wm_name_action empty_properties) = ''xterm'' \<and>
   title (run_action example_replies (net_wm_name_action example_connection)
            empty_properties) = ''XTerm'' \<and>
   title (run_actions example_replies (read_properties_actions example_connection)
            empty_properties) = ''XTerm'' \<and>
   title (run_actions example_replies (rev (read_properties_actions example_connection))
            empty_properties) = ''xterm''"
  by (simp add: example_replies_def examples XCB_ATOM_WM_NAME_def XCB_ATOM_WM_CLASS_def
      read_properties_actions_def wm_class_action_def wm_name_action_def
      net_wm_name_action_def wm_protocols_action_def)

end
